theory Spec2Isabelle
  imports Main
begin

section \<open>Python values used by agent_runner.py\<close>

text \<open>
  A Python \<open>str\<close> is a sequence of Unicode code points, so it is modelled as a list of
  naturals: slicing \<open>s[:n]\<close> is \<open>take n s\<close>, truthiness \<open>not s\<close> is \<open>s = []\<close>.
  The literals of the source that are plain ASCII are written with \<open>ascii\<close>; the four
  emoji of the log lines are given by their code points.
\<close>

type_synonym pystr = "nat list"

definition ascii :: "string \<Rightarrow> pystr" where
  "ascii s = map of_char s"

definition emoji_robot :: pystr where "emoji_robot = [129302]"
definition emoji_check :: pystr where "emoji_check = [9989]"
definition emoji_cross :: pystr where "emoji_cross = [10060]"
definition emoji_rocket :: pystr where "emoji_rocket = [128640]"

text \<open>The dict and list literals that the source passes as configuration.\<close>

datatype pyval =
    PStr pystr
  | PInt int
  | PList "pyval list"
  | PDict "(pystr \<times> pyval) list"


text \<open>The process environment, and \<open>os.getenv(key, default)\<close>.\<close>

type_synonym environ = "pystr \<rightharpoonup> pystr"

definition getenv :: "environ \<Rightarrow> pystr \<Rightarrow> pystr \<Rightarrow> pystr" where
  "getenv env key dflt = (case env key of None \<Rightarrow> dflt | Some v \<Rightarrow> v)"

section \<open>Module constants\<close>

definition STRANDS_MODEL_ID :: pystr where
  "STRANDS_MODEL_ID = ascii ''anthropic.claude-opus-4-20250514-v1:0''"

definition STRANDS_MAX_TOKENS :: int where
  "STRANDS_MAX_TOKENS = 64000"

definition STRANDS_BUDGET_TOKENS :: int where
  "STRANDS_BUDGET_TOKENS = 8000"

definition STRANDS_REGION :: pystr where
  "STRANDS_REGION = ascii ''ap-northeast-1''"

definition DEFAULT_SYSTEM_PROMPT :: pystr where
  "DEFAULT_SYSTEM_PROMPT = ascii ''You are an autonomous GitHub agent.''"

section \<open>The tool registry\<close>

text \<open>The seventeen imported tool objects, one constructor per imported name.\<close>

datatype tool =
    str_replace_based_edit_tool
  | shell
  | http_request
  | create_issue
  | get_issue
  | update_issue
  | list_issues
  | add_issue_comment
  | get_issue_comments
  | create_pull_request
  | get_pull_request
  | update_pull_request
  | list_pull_requests
  | get_pr_review_and_comments
  | reply_to_review_comment
  | notebook
  | handoff_to_user

definition get_all_tools :: "tool list" where
  "get_all_tools =
    [ str_replace_based_edit_tool,
      shell,
      http_request,
      create_issue,
      get_issue,
      update_issue,
      list_issues,
      add_issue_comment,
      get_issue_comments,
      create_pull_request,
      get_pull_request,
      update_pull_request,
      list_pull_requests,
      get_pr_review_and_comments,
      reply_to_review_comment,
      notebook,
      handoff_to_user ]"

section \<open>The collaborators: botocore and strands\<close>

text \<open>\<open>botocore.config.Config(read_timeout, connect_timeout, retries)\<close>.\<close>

record boto_config =
  read_timeout :: int
  connect_timeout :: int
  retries :: pyval

text \<open>The keyword arguments of \<open>BedrockModel(...)\<close>.\<close>

record bedrock_args =
  model_id :: pystr
  max_tokens :: int
  region_name :: pystr
  boto_client_config :: boto_config
  additional_request_fields :: pyval

text \<open>
  An instance of Python's \<open>Exception\<close>, the class that the handler of \<open>run_agent\<close>
  catches: its class name and the text \<open>str(e)\<close> that the f-string prints.
  Signals below \<open>BaseException\<close> only (an interrupt of the process) are not values of
  this type and are not modelled.
\<close>

datatype exn = Exn (exn_class: string) (exn_str: pystr)

text \<open>
  The strands library is a parameter of the model: constructing the model, constructing the
  agent and calling the agent each return a value or raise. \<open>'m\<close> is the model object,
  \<open>'a\<close> the agent object, \<open>'r\<close> the agent's result.
\<close>

record ('m, 'a, 'r) strands =
  BedrockModel :: "bedrock_args \<Rightarrow> exn + 'm"
  Agent :: "'m \<Rightarrow> pystr \<Rightarrow> tool list \<Rightarrow> exn + 'a"
  agent_call :: "'a \<Rightarrow> pystr \<Rightarrow> exn + 'r"

text \<open>
  What the script does at its boundary, in order: the lines it prints and the calls it makes
  into the library.
\<close>

datatype ('m, 'a) event =
    Print pystr
  | NewModel bedrock_args
  | NewAgent 'm pystr "tool list"
  | Invoke 'a pystr

fun is_Print :: "('m, 'a) event \<Rightarrow> bool" where
  "is_Print (Print s) = True"
| "is_Print _ = False"

fun is_NewModel :: "('m, 'a) event \<Rightarrow> bool" where
  "is_NewModel (NewModel c) = True"
| "is_NewModel _ = False"

fun is_NewAgent :: "('m, 'a) event \<Rightarrow> bool" where
  "is_NewAgent (NewAgent m s ts) = True"
| "is_NewAgent _ = False"


text \<open>The arguments of every \<open>BedrockModel(...)\<close> call of a run, in order.\<close>

fun models_built :: "('m, 'a) event list \<Rightarrow> bedrock_args list" where
  "models_built [] = []"
| "models_built (NewModel c # evs) = c # models_built evs"
| "models_built (ev # evs) = models_built evs"

section \<open>run_agent\<close>

definition request_fields :: pyval where
  "request_fields =
    PDict [ (ascii ''anthropic_beta'', PList [PStr (ascii ''interleaved-thinking-2025-05-14'')]),
            (ascii ''thinking'',
               PDict [ (ascii ''type'', PStr (ascii ''enabled'')),
                       (ascii ''budget_tokens'', PInt STRANDS_BUDGET_TOKENS) ]) ]"

definition client_config :: boto_config where
  "client_config =
    \<lparr> read_timeout = 900,
      connect_timeout = 900,
      retries = PDict [ (ascii ''max_attempts'', PInt 3),
                        (ascii ''mode'', PStr (ascii ''adaptive'')) ] \<rparr>"

definition model_args :: bedrock_args where
  "model_args =
    \<lparr> model_id = STRANDS_MODEL_ID,
      max_tokens = STRANDS_MAX_TOKENS,
      region_name = STRANDS_REGION,
      boto_client_config = client_config,
      additional_request_fields = request_fields \<rparr>"

definition running_line :: "pystr \<Rightarrow> pystr" where
  "running_line query =
     emoji_robot @ ascii '' Running agent with query: '' @ take 100 query @ ascii ''...''"

definition completed_line :: pystr where
  "completed_line = emoji_check @ ascii '' Agent completed successfully''"

definition error_line :: "exn \<Rightarrow> pystr" where
  "error_line e = emoji_cross @ ascii '' Error running agent: '' @ exn_str e"

text \<open>
  The body of the \<open>try\<close> block, lines 68 to 101: the events so far and either the
  exception that left the block or the value of \<open>return result\<close>.
\<close>

definition run_agent_try ::
  "environ \<Rightarrow> ('m, 'a, 'r) strands \<Rightarrow> pystr \<Rightarrow> ('m, 'a) event list \<times> (exn + 'r)" where
  "run_agent_try env lib query =
    (let tools = get_all_tools in
     case BedrockModel lib model_args of
       Inl e \<Rightarrow> ([NewModel model_args], Inl e)
     | Inr model \<Rightarrow>
        (let system_prompt = getenv env (ascii ''INPUT_SYSTEM_PROMPT'') DEFAULT_SYSTEM_PROMPT in
         case Agent lib model system_prompt tools of
           Inl e \<Rightarrow> ([NewModel model_args, NewAgent model system_prompt tools], Inl e)
         | Inr agent \<Rightarrow>
            (case agent_call lib agent query of
               Inl e \<Rightarrow>
                 ([NewModel model_args, NewAgent model system_prompt tools,
                   Print (running_line query), Invoke agent query], Inl e)
             | Inr result \<Rightarrow>
                 ([NewModel model_args, NewAgent model system_prompt tools,
                   Print (running_line query), Invoke agent query,
                   Print completed_line], Inr result))))"

text \<open>The handler, lines 103 to 105: print the error line, then \<open>raise\<close> the same exception.\<close>

definition run_agent ::
  "environ \<Rightarrow> ('m, 'a, 'r) strands \<Rightarrow> pystr \<Rightarrow> ('m, 'a) event list \<times> (exn + 'r)" where
  "run_agent env lib query =
    (case run_agent_try env lib query of
       (evs, Inl e) \<Rightarrow> (evs @ [Print (error_line e)], Inl e)
     | (evs, Inr result) \<Rightarrow> (evs, Inr result))"

section \<open>main\<close>

definition no_task_line :: pystr where
  "no_task_line = emoji_cross @ ascii '' No task prompt provided''"

definition rule_line :: pystr where
  "rule_line = replicate 60 (of_char CHR ''='')"

definition banner :: "pystr \<Rightarrow> ('m, 'a) event list" where
  "banner task_prompt =
    [ Print rule_line,
      Print (emoji_rocket @ ascii '' Starting Strands Agent''),
      Print rule_line,
      Print (ascii ''Model: '' @ STRANDS_MODEL_ID),
      Print (ascii ''Region: '' @ STRANDS_REGION),
      Print (ascii ''Task: '' @ take 200 task_prompt @ ascii ''...''),
      Print rule_line ]"

text \<open>
  \<open>main\<close> has no \<open>return\<close> with a value: its result is Python's \<open>None\<close> on both paths,
  written \<open>None\<close> here, where \<open>Some r\<close> would be a returned value \<open>r\<close>. An exception of
  \<open>run_agent\<close> is not caught.
\<close>

definition main ::
  "environ \<Rightarrow> ('m, 'a, 'r) strands \<Rightarrow> ('m, 'a) event list \<times> (exn + 'r option)" where
  "main env lib =
    (let task_prompt = getenv env (ascii ''INPUT_TASK_PROMPT'') [] in
     if task_prompt = [] then ([Print no_task_line], Inr None)
     else
       (case run_agent env lib task_prompt of
          (evs, Inl e) \<Rightarrow> (banner task_prompt @ evs, Inl e)
        | (evs, Inr result) \<Rightarrow> (banner task_prompt @ evs, Inr None)))"

section \<open>Concrete collaborators for evaluation\<close>

text \<open>A library whose three calls succeed; the agent answers with the length of the query.\<close>

definition lib_ok :: "(nat, nat, int) strands" where
  "lib_ok =
    \<lparr> BedrockModel = (\<lambda>args. Inr 1),
      Agent = (\<lambda>m sp ts. Inr 2),
      agent_call = (\<lambda>a q. Inr (int (length q))) \<rparr>"



section \<open>Literals\<close>

lemma ascii_eq_iff [simp]: "ascii s = ascii t \<longleftrightarrow> s = t"
  unfolding ascii_def by (rule inj_map_eq_map) (simp add: inj_on_def)

lemma ascii_Nil_iff [simp]: "ascii s = [] \<longleftrightarrow> s = []"
  by (simp add: ascii_def)

lemma length_ascii [simp]: "length (ascii s) = length s"
  by (simp add: ascii_def)

section \<open>The four paths through run_agent\<close>

lemma run_agent_model_raises:
  assumes "BedrockModel lib model_args = Inl e"
  shows "run_agent env lib query = ([NewModel model_args, Print (error_line e)], Inl e)"
  using assms by (simp add: run_agent_def run_agent_try_def)

lemma run_agent_agent_raises:
  assumes "BedrockModel lib model_args = Inr m"
    and "Agent lib m (getenv env (ascii ''INPUT_SYSTEM_PROMPT'') DEFAULT_SYSTEM_PROMPT)
           get_all_tools = Inl e"
  shows "run_agent env lib query =
           ([NewModel model_args,
             NewAgent m (getenv env (ascii ''INPUT_SYSTEM_PROMPT'') DEFAULT_SYSTEM_PROMPT)
               get_all_tools,
             Print (error_line e)], Inl e)"
  using assms by (simp add: run_agent_def run_agent_try_def)

lemma run_agent_call_raises:
  assumes "BedrockModel lib model_args = Inr m"
    and "Agent lib m (getenv env (ascii ''INPUT_SYSTEM_PROMPT'') DEFAULT_SYSTEM_PROMPT)
           get_all_tools = Inr a"
    and "agent_call lib a query = Inl e"
  shows "run_agent env lib query =
           ([NewModel model_args,
             NewAgent m (getenv env (ascii ''INPUT_SYSTEM_PROMPT'') DEFAULT_SYSTEM_PROMPT)
               get_all_tools,
             Print (running_line query), Invoke a query,
             Print (error_line e)], Inl e)"
  using assms by (simp add: run_agent_def run_agent_try_def)

lemma run_agent_returns:
  assumes "BedrockModel lib model_args = Inr m"
    and "Agent lib m (getenv env (ascii ''INPUT_SYSTEM_PROMPT'') DEFAULT_SYSTEM_PROMPT)
           get_all_tools = Inr a"
    and "agent_call lib a query = Inr r"
  shows "run_agent env lib query =
           ([NewModel model_args,
             NewAgent m (getenv env (ascii ''INPUT_SYSTEM_PROMPT'') DEFAULT_SYSTEM_PROMPT)
               get_all_tools,
             Print (running_line query), Invoke a query,
             Print completed_line], Inr r)"
  using assms by (simp add: run_agent_def run_agent_try_def)

text \<open>Every run is one of the four.\<close>

lemma run_agent_cases:
  obtains (model_raises) e where "BedrockModel lib model_args = Inl e"
  | (agent_raises) m e where "BedrockModel lib model_args = Inr m"
      and "Agent lib m (getenv env (ascii ''INPUT_SYSTEM_PROMPT'') DEFAULT_SYSTEM_PROMPT)
             get_all_tools = Inl e"
  | (call_raises) m a e where "BedrockModel lib model_args = Inr m"
      and "Agent lib m (getenv env (ascii ''INPUT_SYSTEM_PROMPT'') DEFAULT_SYSTEM_PROMPT)
             get_all_tools = Inr a"
      and "agent_call lib a query = Inl e"
  | (returns) m a r where "BedrockModel lib model_args = Inr m"
      and "Agent lib m (getenv env (ascii ''INPUT_SYSTEM_PROMPT'') DEFAULT_SYSTEM_PROMPT)
             get_all_tools = Inr a"
      and "agent_call lib a query = Inr r"
proof (cases "BedrockModel lib model_args")
  case (Inl e)
  then show ?thesis by (rule model_raises)
next
  case m: (Inr m)
  show ?thesis
  proof (cases "Agent lib m (getenv env (ascii ''INPUT_SYSTEM_PROMPT'') DEFAULT_SYSTEM_PROMPT)
                  get_all_tools")
    case (Inl e)
    with m show ?thesis by (rule agent_raises)
  next
    case a: (Inr a)
    show ?thesis
    proof (cases "agent_call lib a query")
      case (Inl e)
      with m a show ?thesis by (rule call_raises)
    next
      case (Inr r)
      with m a show ?thesis by (rule returns)
    qed
  qed
qed

lemma models_built_run_agent: "models_built (fst (run_agent env lib query)) = [model_args]"
  by (cases rule: run_agent_cases [where lib = lib and env = env and query = query])
     (simp_all add: run_agent_model_raises run_agent_agent_raises run_agent_call_raises
        run_agent_returns)

text \<open>With a task, \<open>main\<close> is the banner followed by one run of \<open>run_agent\<close> on it.\<close>

lemma main_with_task:
  assumes "env (ascii ''INPUT_TASK_PROMPT'') = Some task" and "task \<noteq> []"
  shows "main env lib =
           (banner task @ fst (run_agent env lib task),
            case snd (run_agent env lib task) of Inl e \<Rightarrow> Inl e | Inr r \<Rightarrow> Inr None)"
  using assms by (simp add: main_def getenv_def Let_def split: prod.split sum.split)




section \<open>The tool registry is fixed\<close>

text \<open>
  C7. The registry is a fixed list: \<open>_get_all_tools\<close> takes no input and reads no
  environment, and its value is the seventeen tools in the order file editing, shell, HTTP,
  the twelve issue and pull-request operations, notebook, handoff to the user, with no
  tool twice; and whatever the environment, the library and the query are, every agent that
  \<open>run_agent\<close> constructs is given exactly this list.
\<close>

theorem C7_tool_registry_fixed:
  "length get_all_tools = 17
   \<and> distinct get_all_tools
   \<and> take 3 get_all_tools = [str_replace_based_edit_tool, shell, http_request]
   \<and> take 12 (drop 3 get_all_tools) =
       [create_issue, get_issue, update_issue, list_issues, add_issue_comment,
        get_issue_comments, create_pull_request, get_pull_request, update_pull_request,
        list_pull_requests, get_pr_review_and_comments, reply_to_review_comment]
   \<and> drop 15 get_all_tools = [notebook, handoff_to_user]
   \<and> list_all (\<lambda>ev. case ev of NewAgent m sp ts \<Rightarrow> ts = get_all_tools | _ \<Rightarrow> True)
        (fst (run_agent env lib query))"
proof -
  have registry: "length get_all_tools = 17" "distinct get_all_tools"
    "take 3 get_all_tools = [str_replace_based_edit_tool, shell, http_request]"
    "take 12 (drop 3 get_all_tools) =
       [create_issue, get_issue, update_issue, list_issues, add_issue_comment,
        get_issue_comments, create_pull_request, get_pull_request, update_pull_request,
        list_pull_requests, get_pr_review_and_comments, reply_to_review_comment]"
    "drop 15 get_all_tools = [notebook, handoff_to_user]"
    by (simp_all add: get_all_tools_def)
  have "list_all (\<lambda>ev. case ev of NewAgent m sp ts \<Rightarrow> ts = get_all_tools | _ \<Rightarrow> True)
          (fst (run_agent env lib query))"
  proof (cases rule: run_agent_cases [where lib = lib and env = env and query = query])
    case model_raises
    then show ?thesis by (simp add: run_agent_model_raises)
  next
    case agent_raises
    then show ?thesis by (simp add: run_agent_agent_raises)
  next
    case call_raises
    then show ?thesis by (simp add: run_agent_call_raises)
  next
    case returns
    then show ?thesis by (simp add: run_agent_returns)
  qed
  with registry show ?thesis by simp
qed

section \<open>No task, no run\<close>



section \<open>The client configuration\<close>

text \<open>
  C9. Whatever the environment, the library and the query are, \<open>run_agent\<close> constructs
  exactly one model, and the client configuration it passes sets the read timeout and the
  connect timeout to 900 seconds each, that is fifteen minutes: a fixed literal of the
  configuration object, which botocore applies to each attempt.
\<close>

theorem C9_timeouts:
  "map (\<lambda>c. (read_timeout (boto_client_config c), connect_timeout (boto_client_config c)))
     (models_built (fst (run_agent env lib query))) = [(900, 900)]
   \<and> (900::int) = 15 * 60"
  by (simp add: models_built_run_agent model_args_def client_config_def)


text \<open>
  C8. The reasoning budget and the beta flag are part of the model's construction, not of a
  call: a run constructs exactly one model, its additional request fields are the beta list
  with \<open>interleaved-thinking-2025-05-14\<close> and the thinking dict with type \<open>enabled\<close> and
  a budget of 8000 tokens, and the only later use of the model is to hand the constructed
  object, as it is, to the agent's constructor.
\<close>

theorem C8_request_fields:
  "map additional_request_fields (models_built (fst (run_agent env lib query)))
     = [PDict [ (ascii ''anthropic_beta'',
                   PList [PStr (ascii ''interleaved-thinking-2025-05-14'')]),
                (ascii ''thinking'',
                   PDict [ (ascii ''type'', PStr (ascii ''enabled'')),
                           (ascii ''budget_tokens'', PInt 8000) ]) ]]
   \<and> list_all
        (\<lambda>ev. case ev of NewAgent m' sp ts \<Rightarrow> BedrockModel lib model_args = Inr m' | _ \<Rightarrow> True)
        (fst (run_agent env lib query))"
proof -
  have "list_all
        (\<lambda>ev. case ev of NewAgent m' sp ts \<Rightarrow> BedrockModel lib model_args = Inr m' | _ \<Rightarrow> True)
        (fst (run_agent env lib query))"
    by (cases rule: run_agent_cases [where lib = lib and env = env and query = query])
       (simp_all add: run_agent_model_raises run_agent_agent_raises run_agent_call_raises
          run_agent_returns)
  then show ?thesis
    by (simp add: models_built_run_agent model_args_def request_fields_def
          STRANDS_BUDGET_TOKENS_def)
qed

section \<open>Outcome of run_agent\<close>



section \<open>The system prompt\<close>

text \<open>
  C6. When the model is constructed, the run constructs exactly one agent: with the value
  of \<open>INPUT_SYSTEM_PROMPT\<close> as it is when the variable is set (also when it is set to
  the empty string), and with the default \<open>You are an autonomous GitHub agent.\<close> when
  it is unset.
\<close>

theorem C6_system_prompt:
  assumes "BedrockModel lib model_args = Inr m"
  shows "(env (ascii ''INPUT_SYSTEM_PROMPT'') = Some s \<longrightarrow>
            filter is_NewAgent (fst (run_agent env lib query)) = [NewAgent m s get_all_tools])
       \<and> (env (ascii ''INPUT_SYSTEM_PROMPT'') = None \<longrightarrow>
            filter is_NewAgent (fst (run_agent env lib query)) =
              [NewAgent m (ascii ''You are an autonomous GitHub agent.'') get_all_tools])"
proof -
  have "filter is_NewAgent (fst (run_agent env lib query)) =
          [NewAgent m (getenv env (ascii ''INPUT_SYSTEM_PROMPT'') DEFAULT_SYSTEM_PROMPT)
             get_all_tools]"
  proof (cases rule: run_agent_cases [where lib = lib and env = env and query = query])
    case model_raises
    with assms show ?thesis by simp
  next
    case agent_raises
    with assms show ?thesis by (simp add: run_agent_agent_raises)
  next
    case call_raises
    with assms show ?thesis by (simp add: run_agent_call_raises)
  next
    case returns
    with assms show ?thesis by (simp add: run_agent_returns)
  qed
  then show ?thesis
    by (simp add: getenv_def DEFAULT_SYSTEM_PROMPT_def)
qed

theorem C6_system_prompt_witness:
  "filter is_NewAgent
      (fst (run_agent [ascii ''INPUT_SYSTEM_PROMPT'' \<mapsto> ascii ''Be brief.''] lib_ok (ascii ''hi'')))
     = [NewAgent 1 (ascii ''Be brief.'') get_all_tools]
   \<and> filter is_NewAgent
      (fst (run_agent [ascii ''INPUT_SYSTEM_PROMPT'' \<mapsto> []] lib_ok (ascii ''hi'')))
     = [NewAgent 1 [] get_all_tools]
   \<and> filter is_NewAgent
      (fst (run_agent [ascii ''INPUT_TASK_PROMPT'' \<mapsto> ascii ''hi''] lib_ok (ascii ''hi'')))
     = [NewAgent 1 (ascii ''You are an autonomous GitHub agent.'') get_all_tools]"
  using C6_system_prompt [where lib = lib_ok and m = 1
          and env = "[ascii ''INPUT_SYSTEM_PROMPT'' \<mapsto> ascii ''Be brief.'']"
          and s = "ascii ''Be brief.''" and query = "ascii ''hi''"]
        C6_system_prompt [where lib = lib_ok and m = 1
          and env = "[ascii ''INPUT_SYSTEM_PROMPT'' \<mapsto> []]"
          and s = "[]" and query = "ascii ''hi''"]
        C6_system_prompt [where lib = lib_ok and m = 1
          and env = "[ascii ''INPUT_TASK_PROMPT'' \<mapsto> ascii ''hi'']"
          and query = "ascii ''hi''"]
  by (simp add: lib_ok_def)


section \<open>What main does with a task\<close>

text \<open>
  C4, as stated: the value returned by the agent invocation is returned by \<open>main\<close>.
  It is not: with the task \<open>hi\<close> and a library whose agent call returns 2,
  \<open>run_agent\<close> returns 2 and \<open>main\<close> returns \<open>None\<close>.
\<close>

theorem C4_main_discards_result_counterexample:
  "agent_call lib_ok 2 (ascii ''hi'') = Inr 2
   \<and> snd (run_agent [ascii ''INPUT_TASK_PROMPT'' \<mapsto> ascii ''hi''] lib_ok (ascii ''hi'')) = Inr 2
   \<and> snd (main [ascii ''INPUT_TASK_PROMPT'' \<mapsto> ascii ''hi''] lib_ok) = Inr None
   \<and> snd (main [ascii ''INPUT_TASK_PROMPT'' \<mapsto> ascii ''hi''] lib_ok) \<noteq> Inr (Some 2)"
  by (simp add: main_def getenv_def run_agent_def run_agent_try_def lib_ok_def Let_def)

text \<open>
  C4, amended. After a successful agent run, the value returned by the agent invocation is
  returned by \<open>run_agent\<close> to its caller \<open>main\<close>; \<open>main\<close> calls \<open>run_agent\<close> as a
  statement and itself returns \<open>None\<close>, the completion marker being the last line
  printed.
\<close>

theorem C4_result_returned_to_main_only:
  assumes "env (ascii ''INPUT_TASK_PROMPT'') = Some task" and "task \<noteq> []"
    and "BedrockModel lib model_args = Inr m"
    and "Agent lib m (getenv env (ascii ''INPUT_SYSTEM_PROMPT'') DEFAULT_SYSTEM_PROMPT)
           get_all_tools = Inr a"
    and "agent_call lib a task = Inr r"
  shows "snd (run_agent env lib task) = Inr r
       \<and> snd (main env lib) = Inr None
       \<and> last (fst (main env lib)) = Print completed_line"
proof -
  have run: "run_agent env lib task =
           ([NewModel model_args,
             NewAgent m (getenv env (ascii ''INPUT_SYSTEM_PROMPT'') DEFAULT_SYSTEM_PROMPT)
               get_all_tools,
             Print (running_line task), Invoke a task,
             Print completed_line], Inr r)"
    using assms(3-5) by (rule run_agent_returns)
  have "main env lib =
           (banner task @ fst (run_agent env lib task),
            case snd (run_agent env lib task) of Inl e \<Rightarrow> Inl e | Inr r \<Rightarrow> Inr None)"
    using assms(1,2) by (rule main_with_task)
  with run show ?thesis by simp
qed

theorem C4_result_returned_to_main_only_witness:
  "snd (run_agent [ascii ''INPUT_TASK_PROMPT'' \<mapsto> ascii ''hi''] lib_ok (ascii ''hi'')) = Inr 2
   \<and> snd (main [ascii ''INPUT_TASK_PROMPT'' \<mapsto> ascii ''hi''] lib_ok) = Inr None
   \<and> last (fst (main [ascii ''INPUT_TASK_PROMPT'' \<mapsto> ascii ''hi''] lib_ok)) = Print completed_line"
  using C4_result_returned_to_main_only [where lib = lib_ok and m = 1 and a = 2 and r = 2
          and env = "[ascii ''INPUT_TASK_PROMPT'' \<mapsto> ascii ''hi'']" and task = "ascii ''hi''"]
  by (simp add: lib_ok_def)




end
